theory Spec2Isabelle
  imports Main
begin

section \<open>The game code sender of dingomata\<close>

text \<open>
  A shallow embedding of \<^verbatim>\<open>GameCodeSenderCommands\<close>
  (\<^verbatim>\<open>dingomata/cogs/gamecode/gamecode.py\<close>). The cog object is a record, every
  command is a function from the cog before the call to the cog after it, the things the
  command sent to the platform, and the exception that left the command uncaught, if any.
  Python mutates the cog in place, so the cog after the call is returned also when the
  command raises. The calls of \<^verbatim>\<open>ctx.reply\<close> and of the player channel's
  \<^verbatim>\<open>send\<close> are recorded in the order the command makes them. Outside
  \<^verbatim>\<open>resend\<close> they come after everything the command does to the cog and are taken
  to return. In \<^verbatim>\<open>resend\<close> both \<^verbatim>\<open>user.send\<close> and \<^verbatim>\<open>ctx.reply\<close> may
  raise, since that decides which recipients are still tried.
\<close>

subsection \<open>Identifiers, configuration and platform\<close>

text \<open>
  Guild identifiers and the requested count are Python integers. A member is identified
  with its platform identifier: \<^verbatim>\<open>discord.Member\<close> compares and hashes by it.
\<close>

type_synonym guild = int
type_synonym member = nat
type_synonym role = nat

text \<open>
  The part of \<^verbatim>\<open>get_guild_config(guild).game_code\<close> that the commands read. The
  class \<^verbatim>\<open>GameCodeConfig\<close> is not part of the sources at hand, so the configuration
  is a parameter of every command. The message templates only decorate texts and are left
  out.
\<close>

record game_code_config =
  exclude_selected :: bool
  player_roles :: "role list"

type_synonym config = "guild \<Rightarrow> game_code_config"

text \<open>
  What a command tells the requester through \<^verbatim>\<open>ctx.reply\<close>. The constructors
  stand for the texts of the source:
  \<^item> \<open>Joined t\<close>: the configured \<^verbatim>\<open>message_joined\<close> with title \<open>t\<close>;
  \<^item> \<open>RecentlySelected\<close>: "You cannot join this pool because you were recently selected.";
  \<^item> \<open>RoleIneligible e\<close>: the text \<open>e\<close> of the \<^verbatim>\<open>MemberRoleError\<close>;
  \<^item> \<open>PoolClosed\<close>: "You can't join the pool, it's not open right now.";
  \<^item> \<open>Left t\<close>: the configured \<^verbatim>\<open>message_left\<close> with title \<open>t\<close>;
  \<^item> \<open>LeaveClosed\<close>: "The pool is currently closed. You have not been added.";
  \<^item> \<open>OpenedDone t\<close>: "Done, opened a pool with title t";
  \<^item> \<open>ClosedDone\<close>: "Done, pool is closed.";
  \<^item> \<open>FailedForbidden u\<close>: "Failed to DM u. Their DM is probably not open. ...";
  \<^item> \<open>FailedHTTP u e\<close>: "Failed to DM u. You may want to resend the message. e";
  \<^item> \<open>AllDone\<close>: "All done" and "All done!";
  \<^item> \<open>Listing ms\<close>: the display names of \<open>ms\<close>, one per line.
\<close>

datatype reply =
    Joined string
  | RecentlySelected
  | RoleIneligible string
  | PoolClosed
  | Left string
  | LeaveClosed
  | OpenedDone string
  | ClosedDone
  | FailedForbidden member
  | FailedHTTP member string
  | AllDone
  | Listing "member list"

text \<open>
  The outcome of the platform call \<^verbatim>\<open>user.send(message)\<close>: it returns, it raises
  \<^verbatim>\<open>Forbidden\<close>, it raises another \<^verbatim>\<open>HTTPException\<close> with a text, or it raises
  an exception that is neither (a timeout, a connection error), named by its text.
\<close>

datatype outcome = Delivered | Forbidden | HTTPException string | OtherException string

text \<open>
  The platform is a parameter: what \<^verbatim>\<open>user.send(message)\<close> does for each member and
  message, and whether \<^verbatim>\<open>ctx.reply\<close> returns (\<open>None\<close>) or raises (the text of the
  exception) for each reply.
\<close>

record platform =
  user_send :: "member \<Rightarrow> string \<Rightarrow> outcome"
  ctx_reply :: "reply \<Rightarrow> string option"

text \<open>
  The exceptions that leave a command uncaught; \<open>Uncaught e\<close> is an exception of the
  platform that no handler of the command catches.
\<close>

datatype error = KeyError | IndexError | TypeError | EmptyPool | InvalidCount | Uncaught string

text \<open>
  What a command does to the platform, in order: a reply to the requester, an embed in
  the guild's player channel, or a call of \<^verbatim>\<open>user.send(message)\<close>.
\<close>

datatype announcement =
    Opened string
  | Closed string nat
  | Picked string nat "member list"

datatype event =
    Reply reply
  | Announce guild announcement
  | SendDM member string

subsection \<open>The member pool\<close>

text \<open>
  Modelled from the spec: the class \<^verbatim>\<open>MemberPool\<close> of
  \<^verbatim>\<open>dingomata/cogs/gamecode/pool.py\<close> is imported by the cog and is not part of the
  sources at hand. A pool has a state (open or closed) and its members, unique by
  identifier, kept in insertion order.
\<close>

record member_pool =
  pool_guild :: guild
  is_open :: bool
  members :: "member list"

text \<open>
  Modelled from the spec: the constructor \<^verbatim>\<open>MemberPool(guild_id)\<close>. The initial
  state is closed and nobody is a member.
\<close>

definition new_pool :: "guild \<Rightarrow> member_pool" where
  "new_pool g = \<lparr>pool_guild = g, is_open = False, members = []\<rparr>"

text \<open>
  Modelled from the spec: \<^verbatim>\<open>MemberPool.open\<close>, which sets the state to open and
  clears nothing.
\<close>

definition pool_open :: "member_pool \<Rightarrow> member_pool" where
  "pool_open p = p\<lparr>is_open := True\<rparr>"

text \<open>
  Modelled from the spec: \<^verbatim>\<open>MemberPool.close\<close>, which sets the state to closed.
\<close>

definition pool_close :: "member_pool \<Rightarrow> member_pool" where
  "pool_close p = p\<lparr>is_open := False\<rparr>"

text \<open>
  Modelled from the spec: \<^verbatim>\<open>MemberPool.size\<close>, the number of members.
\<close>

definition pool_size :: "member_pool \<Rightarrow> nat" where
  "pool_size p = length (members p)"

text \<open>
  Modelled from the spec: the role check of \<^verbatim>\<open>MemberPool.add_member\<close>. If the
  guild configures required roles, the member's roles must intersect them.
\<close>

definition role_eligible :: "role list \<Rightarrow> role list \<Rightarrow> bool" where
  "role_eligible required held \<longleftrightarrow> required = [] \<or> (\<exists>r \<in> set held. r \<in> set required)"

text \<open>
  Modelled from the spec: \<^verbatim>\<open>MemberPool.add_member\<close>. It raises
  \<^verbatim>\<open>MemberRoleError\<close> with a readable reason for an ineligible member (\<open>Inl\<close> of the
  reason) and adds the member otherwise; adding a member again changes nothing.
\<close>

definition add_member ::
  "role list \<Rightarrow> (member \<Rightarrow> role list) \<Rightarrow> member_pool \<Rightarrow> member \<Rightarrow> string + member_pool" where
  "add_member required roles_of p m =
     (if \<not> role_eligible required (roles_of m) then Inl ''You do not have the roles to join this pool.''
      else if m \<in> set (members p) then Inr p
      else Inr (p\<lparr>members := members p @ [m]\<rparr>))"

text \<open>
  Modelled from the spec: \<^verbatim>\<open>MemberPool.remove_member\<close>. Removing somebody who is
  not a member changes nothing.
\<close>

definition remove_member :: "member_pool \<Rightarrow> member \<Rightarrow> member_pool" where
  "remove_member p m = p\<lparr>members := removeAll m (members p)\<rparr>"

text \<open>
  Modelled from the spec: \<^verbatim>\<open>MemberPool.clear\<close>, which empties the membership in
  any state.
\<close>

definition pool_clear :: "member_pool \<Rightarrow> member_pool" where
  "pool_clear p = p\<lparr>members := []\<rparr>"

text \<open>
  Modelled from the spec: the draw of \<^verbatim>\<open>MemberPool.pick\<close>, a sample without
  replacement. The source of randomness is a parameter: \<open>rnd k\<close> is the number drawn at
  step \<open>k\<close>, and the member at position \<open>rnd k mod length xs\<close> of the remaining members
  \<open>xs\<close> is taken out.
\<close>

fun sample :: "(nat \<Rightarrow> nat) \<Rightarrow> nat \<Rightarrow> 'a list \<Rightarrow> nat \<Rightarrow> 'a list" where
  "sample rnd k xs 0 = []"
| "sample rnd k xs (Suc n) =
     (if xs = [] then []
      else let i = rnd k mod length xs
           in xs ! i # sample rnd (Suc k) (take i xs @ drop (Suc i) xs) n)"

text \<open>
  Modelled from the spec: \<^verbatim>\<open>MemberPool.pick\<close>. It always closes the pool. A count
  that is not positive is rejected before any draw, an empty pool gives
  \<^verbatim>\<open>EmptyPool\<close>, and otherwise \<open>min count size\<close> members are drawn. The members
  stay in the pool.
\<close>

definition pool_pick ::
  "(nat \<Rightarrow> nat) \<Rightarrow> member_pool \<Rightarrow> int \<Rightarrow> member_pool \<times> (error + member list)" where
  "pool_pick rnd p count =
     (let p' = p\<lparr>is_open := False\<rparr> in
      if count \<le> 0 then (p', Inl InvalidCount)
      else if members p = [] then (p', Inl EmptyPool)
      else (p', Inr (sample rnd 0 (members p) (nat (min count (int (pool_size p)))))))"

subsection \<open>The cog\<close>

text \<open>
  \<^verbatim>\<open>__init__\<close> makes \<^verbatim>\<open>_picked_users\<close> and \<^verbatim>\<open>_previously_selected_users\<close>
  dictionaries keyed by guild. \<^verbatim>\<open>pick\<close> later assigns a list to the first and
  \<^verbatim>\<open>clear_selected\<close> a set to the second, so each field is one of two shapes.
  \<^verbatim>\<open>_current_message\<close> is never read or written after \<^verbatim>\<open>__init__\<close> and is left
  out, as is \<^verbatim>\<open>_bot\<close>.
\<close>

datatype picked_users = PickedDict "guild \<rightharpoonup> member list" | PickedList "member list"

datatype previously_selected = SelectedDict "guild \<rightharpoonup> member set" | SelectedSet "member set"

record cog =
  pools :: "guild \<rightharpoonup> member_pool"
  title :: string
  picked_users :: picked_users
  previously_selected_users :: previously_selected

definition init :: cog where
  "init = \<lparr>pools = Map.empty, title = '''', picked_users = PickedDict Map.empty,
           previously_selected_users = SelectedDict Map.empty\<rparr>"

type_synonym result = "cog \<times> event list \<times> error option"

text \<open>\<^verbatim>\<open>_pool_for_guild\<close>: the guild's pool, made on first use.\<close>

definition pool_for_guild :: "cog \<Rightarrow> guild \<Rightarrow> member_pool" where
  "pool_for_guild st g = (case pools st g of None \<Rightarrow> new_pool g | Some p \<Rightarrow> p)"

text \<open>
  The pool object is shared with the dictionary, so a method call on the pool shows in
  \<^verbatim>\<open>_pools\<close>: \<open>set_pool\<close> writes the pool back.
\<close>

definition set_pool :: "cog \<Rightarrow> guild \<Rightarrow> member_pool \<Rightarrow> cog" where
  "set_pool st g p = st\<lparr>pools := (pools st)(g \<mapsto> p)\<rparr>"

text \<open>
  \<^verbatim>\<open>ctx.author in self._previously_selected_users\<close>. On a dictionary the test looks
  for the author among the keys, which are guild identifiers: a member never equals an
  integer, so the test is false. On a set it is membership.
\<close>

fun in_previously_selected :: "previously_selected \<Rightarrow> member \<Rightarrow> bool" where
  "in_previously_selected (SelectedDict d) author = False"
| "in_previously_selected (SelectedSet s) author = (author \<in> s)"

text \<open>\<^verbatim>\<open>join\<close>. The roles of the author come from the platform (\<open>roles_of\<close>).\<close>

definition join :: "config \<Rightarrow> (member \<Rightarrow> role list) \<Rightarrow> cog \<Rightarrow> guild \<Rightarrow> member \<Rightarrow> result" where
  "join conf roles_of st g author =
     (let pool = pool_for_guild st g; st1 = set_pool st g pool in
      if is_open pool then
        if in_previously_selected (previously_selected_users st1) author
        then (st1, [Reply RecentlySelected], None)
        else (case add_member (player_roles (conf g)) roles_of pool author of
                Inr pool' \<Rightarrow> (set_pool st1 g pool', [Reply (Joined (title st1))], None)
              | Inl e \<Rightarrow> (st1, [Reply (RoleIneligible e)], None))
      else (st1, [Reply PoolClosed], None))"

text \<open>\<^verbatim>\<open>leave\<close>.\<close>

definition leave :: "cog \<Rightarrow> guild \<Rightarrow> member \<Rightarrow> result" where
  "leave st g author =
     (let pool = pool_for_guild st g; st1 = set_pool st g pool in
      if is_open pool
      then (set_pool st1 g (remove_member pool author), [Reply (Left (title st1))], None)
      else (st1, [Reply LeaveClosed], None))"

text \<open>\<^verbatim>\<open>open\<close>. The embed carries the title given, the reply the title kept.\<close>

definition open_pool :: "cog \<Rightarrow> guild \<Rightarrow> string \<Rightarrow> result" where
  "open_pool st g new_title =
     (let st1 = set_pool st g (pool_open (pool_for_guild st g));
          st2 = (if new_title \<noteq> '''' then st1\<lparr>title := new_title\<rparr> else st1)
      in (st2, [Announce g (Opened new_title), Reply (OpenedDone (title st2))], None))"

text \<open>\<^verbatim>\<open>close\<close>.\<close>

definition close_pool :: "cog \<Rightarrow> guild \<Rightarrow> result" where
  "close_pool st g =
     (let pool = pool_close (pool_for_guild st g); st1 = set_pool st g pool
      in (st1, [Announce g (Closed (title st1) (pool_size pool)), Reply ClosedDone], None))"

text \<open>
  One turn of the loop of \<^verbatim>\<open>resend\<close>: the events of the turn, and the exception
  that leaves the turn, if any. \<^verbatim>\<open>user.send(message)\<close> is called; when it raises
  \<^verbatim>\<open>Forbidden\<close> or another \<^verbatim>\<open>HTTPException\<close> the handler replies to the
  requester, and the reply may raise in its turn. Any other exception of
  \<^verbatim>\<open>user.send\<close> has no handler.
\<close>

definition notify :: "platform \<Rightarrow> member \<Rightarrow> string \<Rightarrow> reply \<Rightarrow> event list \<times> error option" where
  "notify pf user message r =
     (case ctx_reply pf r of
        None \<Rightarrow> ([SendDM user message, Reply r], None)
      | Some e \<Rightarrow> ([SendDM user message], Some (Uncaught e)))"

definition deliver :: "platform \<Rightarrow> string \<Rightarrow> member \<Rightarrow> event list \<times> error option" where
  "deliver pf message user =
     (case user_send pf user message of
        Delivered \<Rightarrow> ([SendDM user message], None)
      | Forbidden \<Rightarrow> notify pf user message (FailedForbidden user)
      | HTTPException e \<Rightarrow> notify pf user message (FailedHTTP user e)
      | OtherException e \<Rightarrow> ([SendDM user message], Some (Uncaught e)))"

text \<open>
  The loop of \<^verbatim>\<open>resend\<close> over the recipients: a turn that ends without an
  exception is followed by the turn of the next recipient; an exception that leaves a
  turn leaves the loop, and the recipients after it are not tried.
\<close>

fun dispatch :: "platform \<Rightarrow> string \<Rightarrow> member list \<Rightarrow> event list \<times> error option" where
  "dispatch pf message [] = ([], None)"
| "dispatch pf message (user # users) =
     (case deliver pf message user of
        (evs, Some e) \<Rightarrow> (evs, Some e)
      | (evs, None) \<Rightarrow>
          (case dispatch pf message users of (evs', err) \<Rightarrow> (evs @ evs', err)))"

text \<open>
  \<^verbatim>\<open>self._picked_users[ctx.guild.id]\<close> and the start of the iteration over it. A
  dictionary without the key raises \<^verbatim>\<open>KeyError\<close>. A list is indexed by the guild
  identifier: out of range it raises \<^verbatim>\<open>IndexError\<close>, in range (Python counts
  negative indices from the end) the element is one member, which is not iterable, so
  the loop raises \<^verbatim>\<open>TypeError\<close>.
\<close>

fun recipients :: "picked_users \<Rightarrow> guild \<Rightarrow> error + member list" where
  "recipients (PickedDict d) g = (case d g of None \<Rightarrow> Inl KeyError | Some users \<Rightarrow> Inr users)"
| "recipients (PickedList l) g =
     (if - int (length l) \<le> g \<and> g < int (length l) then Inl TypeError else Inl IndexError)"

text \<open>\<^verbatim>\<open>resend\<close>: the loop, and after it the reply "All done".\<close>

definition resend :: "platform \<Rightarrow> cog \<Rightarrow> guild \<Rightarrow> string \<Rightarrow> result" where
  "resend pf st g message =
     (case recipients (picked_users st) g of
        Inl e \<Rightarrow> (st, [], Some e)
      | Inr users \<Rightarrow>
          (case dispatch pf message users of
             (evs, Some e) \<Rightarrow> (st, evs, Some e)
           | (evs, None) \<Rightarrow>
               (case ctx_reply pf AllDone of
                  None \<Rightarrow> (st, evs @ [Reply AllDone], None)
                | Some e \<Rightarrow> (st, evs, Some (Uncaught e)))))"

text \<open>
  \<^verbatim>\<open>self._previously_selected_users[ctx.guild.id].update(self._picked_users)\<close>. A
  dictionary without the key raises \<^verbatim>\<open>KeyError\<close>; a set cannot be subscripted and
  raises \<^verbatim>\<open>TypeError\<close>.
\<close>

fun record_selected :: "previously_selected \<Rightarrow> guild \<Rightarrow> member list \<Rightarrow> error + previously_selected" where
  "record_selected (SelectedDict d) g picked =
     (case d g of None \<Rightarrow> Inl KeyError
      | Some s \<Rightarrow> Inr (SelectedDict (d(g \<mapsto> s \<union> set picked))))"
| "record_selected (SelectedSet s) g picked = Inl TypeError"

text \<open>
  The end of \<^verbatim>\<open>pick\<close>, lines 146 to 151: the announcement in the player channel,
  then \<^verbatim>\<open>await self.resend(ctx, message=message)\<close>. The attribute
  \<^verbatim>\<open>resend\<close> of the cog is not the method but the command object that the decorator
  \<^verbatim>\<open>cog_subcommand\<close> made of it, and that object cannot be called: the line raises
  \<^verbatim>\<open>TypeError\<close> before the body of \<^verbatim>\<open>resend\<close> runs, and nothing is sent.
\<close>

definition announce_and_resend :: "cog \<Rightarrow> guild \<Rightarrow> member_pool \<Rightarrow> member list \<Rightarrow> result" where
  "announce_and_resend st g pool picked =
     (st, [Announce g (Picked (title st) (pool_size pool) picked)], Some TypeError)"

text \<open>
  \<^verbatim>\<open>pick\<close>. The list returned by the pool replaces \<^verbatim>\<open>_picked_users\<close> as a whole.
  The platform and the message are arguments of the command that it never gets to use.
\<close>

definition pick :: "config \<Rightarrow> platform \<Rightarrow> (nat \<Rightarrow> nat) \<Rightarrow> cog \<Rightarrow> guild \<Rightarrow> int \<Rightarrow> string \<Rightarrow> result" where
  "pick conf pf rnd st g count message =
     (case pool_pick rnd (pool_for_guild st g) count of
        (pool, Inl e) \<Rightarrow> (set_pool st g pool, [], Some e)
      | (pool, Inr picked) \<Rightarrow>
          (let st1 = (set_pool st g pool)\<lparr>picked_users := PickedList picked\<rparr> in
           if exclude_selected (conf g) then
             (case record_selected (previously_selected_users st1) g picked of
                Inl e \<Rightarrow> (st1, [], Some e)
              | Inr sel \<Rightarrow>
                  announce_and_resend (st1\<lparr>previously_selected_users := sel\<rparr>) g pool picked)
           else announce_and_resend st1 g pool picked))"

text \<open>\<^verbatim>\<open>list\<close>.\<close>

definition list_pool :: "cog \<Rightarrow> guild \<Rightarrow> result" where
  "list_pool st g =
     (let pool = pool_for_guild st g
      in (set_pool st g pool, [Reply (Listing (members pool))], None))"

text \<open>\<^verbatim>\<open>clear_pool\<close>.\<close>

definition clear_pool :: "cog \<Rightarrow> guild \<Rightarrow> result" where
  "clear_pool st g = (set_pool st g (pool_clear (pool_for_guild st g)), [Reply AllDone], None)"

text \<open>\<^verbatim>\<open>clear_selected\<close>: the field becomes one empty set, for every guild.\<close>

definition clear_selected :: "cog \<Rightarrow> guild \<Rightarrow> result" where
  "clear_selected st g = (st\<lparr>previously_selected_users := SelectedSet {}\<rparr>, [Reply AllDone], None)"


subsection \<open>Views of one guild\<close>

text \<open>
  What the commands see of a guild: its pool is the one \<^verbatim>\<open>_pool_for_guild\<close> hands
  out, so a guild that has no pool yet is seen closed and empty.
\<close>

definition guild_is_open :: "cog \<Rightarrow> guild \<Rightarrow> bool" where
  "guild_is_open st g = is_open (pool_for_guild st g)"

definition guild_members :: "cog \<Rightarrow> guild \<Rightarrow> member list" where
  "guild_members st g = members (pool_for_guild st g)"

text \<open>The members a run tried to message, and the failures it reported, in order.\<close>

fun attempted :: "event list \<Rightarrow> member list" where
  "attempted [] = []"
| "attempted (SendDM user message # evs) = user # attempted evs"
| "attempted (ev # evs) = attempted evs"

fun reported :: "event list \<Rightarrow> (member \<times> outcome) list" where
  "reported [] = []"
| "reported (Reply (FailedForbidden user) # evs) = (user, Forbidden) # reported evs"
| "reported (Reply (FailedHTTP user e) # evs) = (user, HTTPException e) # reported evs"
| "reported (ev # evs) = reported evs"

text \<open>The recipients whose delivery fails, each with the outcome of its delivery.\<close>

definition failing :: "platform \<Rightarrow> string \<Rightarrow> member list \<Rightarrow> (member \<times> outcome) list" where
  "failing pf message users =
     map (\<lambda>user. (user, user_send pf user message))
       (filter (\<lambda>user. user_send pf user message \<noteq> Delivered) users)"

text \<open>
  A delivery that the loop of \<^verbatim>\<open>resend\<close> gets over: the message is delivered, or
  the delivery fails with \<^verbatim>\<open>Forbidden\<close> or another \<^verbatim>\<open>HTTPException\<close> and the
  reply that reports the failure returns. \<open>handled\<close> says so of every recipient.
\<close>

definition caught :: "platform \<Rightarrow> string \<Rightarrow> member \<Rightarrow> bool" where
  "caught pf message user =
     (case user_send pf user message of
        Delivered \<Rightarrow> True
      | Forbidden \<Rightarrow> ctx_reply pf (FailedForbidden user) = None
      | HTTPException e \<Rightarrow> ctx_reply pf (FailedHTTP user e) = None
      | OtherException e \<Rightarrow> False)"

definition handled :: "platform \<Rightarrow> string \<Rightarrow> member list \<Rightarrow> bool" where
  "handled pf message users = list_all (caught pf message) users"

subsection \<open>Commands\<close>

text \<open>
  The commands as the platform routes them to the cog: one constructor for each slash
  command, with the arguments the requester gives. \<open>invoke\<close> runs the handler of the
  command for the guild it came from.
\<close>

datatype command =
    Join member
  | Leave member
  | Open string
  | Close
  | Pick int string
  | Resend string
  | ListPool
  | ClearPool
  | ClearSelected

fun invoke ::
  "config \<Rightarrow> (member \<Rightarrow> role list) \<Rightarrow> platform \<Rightarrow> (nat \<Rightarrow> nat) \<Rightarrow> cog \<Rightarrow> guild \<Rightarrow> command \<Rightarrow> result" where
  "invoke conf roles_of pf rnd st g (Join author) = join conf roles_of st g author"
| "invoke conf roles_of pf rnd st g (Leave author) = leave st g author"
| "invoke conf roles_of pf rnd st g (Open new_title) = open_pool st g new_title"
| "invoke conf roles_of pf rnd st g Close = close_pool st g"
| "invoke conf roles_of pf rnd st g (Pick count message) = pick conf pf rnd st g count message"
| "invoke conf roles_of pf rnd st g (Resend message) = resend pf st g message"
| "invoke conf roles_of pf rnd st g ListPool = list_pool st g"
| "invoke conf roles_of pf rnd st g ClearPool = clear_pool st g"
| "invoke conf roles_of pf rnd st g ClearSelected = clear_selected st g"

text \<open>
  A run of the process: the commands of the list, each for its guild, one after the
  other; a command that raises leaves the cog as it is at that point, and the next
  command goes on from there.
\<close>

fun run ::
  "config \<Rightarrow> (member \<Rightarrow> role list) \<Rightarrow> platform \<Rightarrow> (nat \<Rightarrow> nat) \<Rightarrow> cog \<Rightarrow> (guild \<times> command) list \<Rightarrow> cog" where
  "run conf roles_of pf rnd st [] = st"
| "run conf roles_of pf rnd st ((g, c) # cs) =
     run conf roles_of pf rnd (fst (invoke conf roles_of pf rnd st g c)) cs"

text \<open>
  The round title a command for guild \<open>g\<close> puts into its texts. The cog keeps one
  \<^verbatim>\<open>_title\<close>, whatever the guild.
\<close>

definition guild_title :: "cog \<Rightarrow> guild \<Rightarrow> string" where
  "guild_title st g = title st"

subsection \<open>Example configurations, platforms and cogs\<close>

text \<open>Configurations that ask for no role, with and without exclusion tracking.\<close>

definition excluding :: config where
  "excluding g = \<lparr>exclude_selected = True, player_roles = []\<rparr>"

definition not_excluding :: config where
  "not_excluding g = \<lparr>exclude_selected = False, player_roles = []\<rparr>"

text \<open>A configuration that asks for role 3 and does not track exclusions.\<close>

definition picky :: config where
  "picky g = \<lparr>exclude_selected = False, player_roles = [3]\<rparr>"

text \<open>A platform on which nobody holds a role.\<close>

definition no_roles :: "member \<Rightarrow> role list" where
  "no_roles m = []"

text \<open>
  Platforms on which every reply returns: one that delivers every message, one on which
  member 20 cannot be messaged, and one on which the message to member 20 times out.
\<close>

definition always_delivered :: platform where
  "always_delivered = \<lparr>user_send = (\<lambda>user message. Delivered), ctx_reply = (\<lambda>r. None)\<rparr>"

definition second_fails :: platform where
  "second_fails = \<lparr>user_send = (\<lambda>user message. if user = 20 then Forbidden else Delivered),
     ctx_reply = (\<lambda>r. None)\<rparr>"

definition second_times_out :: platform where
  "second_times_out =
     \<lparr>user_send = (\<lambda>user message. if user = 20 then OtherException ''timeout'' else Delivered),
      ctx_reply = (\<lambda>r. None)\<rparr>"


text \<open>A source of randomness that always draws the first of the remaining members.\<close>

definition first_draw :: "nat \<Rightarrow> nat" where
  "first_draw k = 0"

text \<open>
  The cog after guild 1 opened a pool with the title "Trivia" and the members \<open>ms\<close>
  joined, one after the other.
\<close>

definition trivia_pool :: "member list \<Rightarrow> cog" where
  "trivia_pool ms = \<lparr>pools = [1 \<mapsto> \<lparr>pool_guild = 1, is_open = True, members = ms\<rparr>],
     title = ''Trivia'', picked_users = PickedDict Map.empty,
     previously_selected_users = SelectedDict Map.empty\<rparr>"

text \<open>
  A cog whose \<^verbatim>\<open>_previously_selected_users\<close> is a set that holds member 7, while
  the pool of guild 1 is open.
\<close>

definition selected_before :: cog where
  "selected_before = \<lparr>pools = [1 \<mapsto> \<lparr>pool_guild = 1, is_open = True, members = []\<rparr>],
     title = ''Trivia'', picked_users = PickedDict Map.empty,
     previously_selected_users = SelectedSet {7}\<rparr>"

text \<open>
  A cog whose \<^verbatim>\<open>_picked_users\<close> is the dictionary of \<^verbatim>\<open>__init__\<close>'s annotation,
  with a batch of three members for guild 1.
\<close>

definition batch_of_three :: cog where
  "batch_of_three = \<lparr>pools = Map.empty, title = ''Trivia'',
     picked_users = PickedDict [1 \<mapsto> [10, 20, 30]],
     previously_selected_users = SelectedDict Map.empty\<rparr>"

section \<open>Properties\<close>


subsection \<open>The draw\<close>

lemma length_sample: "length (sample rnd k xs n) = min n (length xs)"
proof (induction n arbitrary: k xs)
  case 0
  show ?case by simp
next
  case (Suc n)
  show ?case
  proof (cases "xs = []")
    case True
    then show ?thesis by simp
  next
    case False
    let ?i = "rnd k mod length xs"
    from False have i: "?i < length xs" by simp
    then have "length (take ?i xs @ drop (Suc ?i) xs) = length xs - 1" by simp
    then have "length (sample rnd (Suc k) (take ?i xs @ drop (Suc ?i) xs) n) = min n (length xs - 1)"
      using Suc.IH by simp
    moreover have "0 < length xs" using False by simp
    ultimately have "length (sample rnd (Suc k) (take ?i xs @ drop (Suc ?i) xs) n) + 1 = min (Suc n) (length xs)"
      by arith
    then show ?thesis using False by (simp add: Let_def)
  qed
qed

lemma set_without_nth: "set (take i xs @ drop (Suc i) xs) \<subseteq> set xs"
  by (auto dest: in_set_takeD in_set_dropD)

lemma set_sample: "set (sample rnd k xs n) \<subseteq> set xs"
proof (induction n arbitrary: k xs)
  case 0
  show ?case by simp
next
  case (Suc n)
  show ?case
  proof (cases "xs = []")
    case True
    then show ?thesis by simp
  next
    case False
    let ?i = "rnd k mod length xs"
    from False have "?i < length xs" by simp
    then have "xs ! ?i \<in> set xs" by simp
    moreover have "set (sample rnd (Suc k) (take ?i xs @ drop (Suc ?i) xs) n)
        \<subseteq> set (take ?i xs @ drop (Suc ?i) xs)"
      by (rule Suc.IH)
    then have "set (sample rnd (Suc k) (take ?i xs @ drop (Suc ?i) xs) n) \<subseteq> set xs"
      using set_without_nth [of ?i xs] by (rule subset_trans)
    ultimately show ?thesis using False by (simp add: Let_def)
  qed
qed

lemma distinct_without_nth:
  assumes "distinct xs" and "i < length xs"
  shows "distinct (take i xs @ drop (Suc i) xs) \<and> xs ! i \<notin> set (take i xs @ drop (Suc i) xs)"
proof -
  have "xs = take i xs @ xs ! i # drop (Suc i) xs"
    using assms(2) by (rule id_take_nth_drop)
  then have "distinct (take i xs @ xs ! i # drop (Suc i) xs)"
    using assms(1) by simp
  then show ?thesis by auto
qed

lemma distinct_sample: "distinct xs \<Longrightarrow> distinct (sample rnd k xs n)"
proof (induction n arbitrary: k xs)
  case 0
  show ?case by simp
next
  case (Suc n)
  show ?case
  proof (cases "xs = []")
    case True
    then show ?thesis by simp
  next
    case False
    let ?i = "rnd k mod length xs"
    let ?rest = "take ?i xs @ drop (Suc ?i) xs"
    from False have i: "?i < length xs" by simp
    from distinct_without_nth [OF Suc.prems i]
    have rest: "distinct ?rest" and fresh: "xs ! ?i \<notin> set ?rest" by simp_all
    have "set (sample rnd (Suc k) ?rest n) \<subseteq> set ?rest" by (rule set_sample)
    with fresh have "xs ! ?i \<notin> set (sample rnd (Suc k) ?rest n)" by blast
    moreover have "distinct (sample rnd (Suc k) ?rest n)" using rest by (rule Suc.IH)
    ultimately show ?thesis using False by (simp add: Let_def)
  qed
qed

lemma pool_for_guild_set_pool: "pool_for_guild (set_pool st g p) g = p"
  by (simp add: pool_for_guild_def set_pool_def)

lemma pool_for_guild_set_pool_other: "g' \<noteq> g \<Longrightarrow> pool_for_guild (set_pool st g p) g' = pool_for_guild st g'"
  by (simp add: pool_for_guild_def set_pool_def)

subsection \<open>The cog's fields and the pool of a guild\<close>

lemmas pool_defs = new_pool_def pool_open_def pool_close_def pool_size_def role_eligible_def
  add_member_def remove_member_def pool_clear_def pool_pick_def

lemmas cog_defs = pool_for_guild_def set_pool_def join_def leave_def open_pool_def close_pool_def
  resend_def announce_and_resend_def pick_def list_pool_def clear_pool_def clear_selected_def

lemmas example_defs = init_def excluding_def not_excluding_def picky_def no_roles_def
  always_delivered_def second_fails_def first_draw_def trivia_pool_def selected_before_def
  batch_of_three_def

lemma set_pool_fields:
  "title (set_pool st g p) = title st"
  "picked_users (set_pool st g p) = picked_users st"
  "previously_selected_users (set_pool st g p) = previously_selected_users st"
  by (simp_all add: set_pool_def)

text \<open>A command for one guild leaves the pool objects of the other guilds alone.\<close>

lemma invoke_other_pools:
  assumes "g' \<noteq> g"
  shows "pools (fst (invoke conf roles_of pf rnd st g c)) g' = pools st g'"
  using assms
  by (cases c) (simp_all add: cog_defs pool_pick_def Let_def split: sum.splits prod.splits option.splits)

text \<open>Only \<^verbatim>\<open>open\<close> with a title that is not empty writes \<^verbatim>\<open>_title\<close>.\<close>

lemma invoke_title:
  "title (fst (invoke conf roles_of pf rnd st g c))
     = (case c of Open new_title \<Rightarrow> if new_title = '''' then title st else new_title
        | _ \<Rightarrow> title st)"
  by (cases c) (simp_all add: cog_defs pool_pick_def Let_def split: sum.splits prod.splits option.splits)

subsection \<open>The loop over the recipients\<close>

lemma attempted_append: "attempted (xs @ ys) = attempted xs @ attempted ys"
  by (induction xs rule: attempted.induct) simp_all

lemma reported_append: "reported (xs @ ys) = reported xs @ reported ys"
  by (induction xs rule: reported.induct) simp_all

text \<open>A turn for a delivery the loop gets over: one attempt, and the report of a failure.\<close>

lemma deliver_caught:
  assumes "caught pf message user"
  shows "snd (deliver pf message user) = None"
    and "attempted (fst (deliver pf message user)) = [user]"
    and "reported (fst (deliver pf message user)) = failing pf message [user]"
  using assms
  by (auto simp add: caught_def deliver_def notify_def failing_def split: outcome.splits)

lemma dispatch_handled:
  assumes "handled pf message users"
  shows "snd (dispatch pf message users) = None
       \<and> attempted (fst (dispatch pf message users)) = users
       \<and> reported (fst (dispatch pf message users)) = failing pf message users"
  using assms
proof (induction users)
  case Nil
  show ?case by (simp add: failing_def)
next
  case (Cons user users)
  from Cons.prems have turn: "caught pf message user" and rest: "handled pf message users"
    by (simp_all add: handled_def)
  obtain evs where evs: "deliver pf message user = (evs, None)"
    using deliver_caught(1) [OF turn] by (cases "deliver pf message user") simp
  obtain evs' err where evs': "dispatch pf message users = (evs', err)"
    by (cases "dispatch pf message users")
  from Cons.IH [OF rest] evs' have err: "err = None"
    and tried: "attempted evs' = users"
    and told: "reported evs' = failing pf message users"
    by simp_all
  from deliver_caught(2,3) [OF turn] evs have one: "attempted evs = [user]"
    and one_told: "reported evs = failing pf message [user]"
    by simp_all
  have "failing pf message (user # users) = failing pf message [user] @ failing pf message users"
    by (simp add: failing_def)
  with evs evs' err tried told one one_told show ?case
    by (simp add: attempted_append reported_append)
qed

text \<open>A turn that an exception leaves is the last one: the loop tries nobody after it.\<close>

lemma dispatch_stops:
  assumes "snd (dispatch pf message before) = None"
    and "snd (deliver pf message user) = Some e"
  shows "dispatch pf message (before @ user # after)
       = (fst (dispatch pf message before) @ fst (deliver pf message user), Some e)"
  using assms(1)
proof (induction before)
  case Nil
  from assms(2) show ?case by (cases "deliver pf message user") simp
next
  case (Cons first before)
  then show ?case
    by (cases "deliver pf message first"; cases "dispatch pf message before")
      (auto split: option.splits)
qed

subsection \<open>What holds after every run from a fresh cog\<close>

text \<open>
  No command ever puts a member into \<^verbatim>\<open>_previously_selected_users\<close>: the field is
  the empty dictionary of \<^verbatim>\<open>__init__\<close> or the empty set of \<^verbatim>\<open>clear_selected\<close>.
\<close>

lemma invoke_selection_shape:
  assumes "previously_selected_users st = SelectedDict Map.empty
         \<or> previously_selected_users st = SelectedSet {}"
  shows "previously_selected_users (fst (invoke conf roles_of pf rnd st g c)) = SelectedDict Map.empty
       \<or> previously_selected_users (fst (invoke conf roles_of pf rnd st g c)) = SelectedSet {}"
  using assms
  by (cases c) (auto simp add: cog_defs pool_pick_def Let_def split: sum.splits prod.splits option.splits)

lemma run_keeps_selection_shape:
  assumes "previously_selected_users st = SelectedDict Map.empty
         \<or> previously_selected_users st = SelectedSet {}"
  shows "previously_selected_users (run conf roles_of pf rnd st cs) = SelectedDict Map.empty
       \<or> previously_selected_users (run conf roles_of pf rnd st cs) = SelectedSet {}"
  using assms
proof (induction cs arbitrary: st)
  case Nil
  then show ?case by simp
next
  case (Cons step cs)
  obtain g c where step: "step = (g, c)" by (cases step)
  from Cons.prems
  have "previously_selected_users (fst (invoke conf roles_of pf rnd st g c)) = SelectedDict Map.empty
      \<or> previously_selected_users (fst (invoke conf roles_of pf rnd st g c)) = SelectedSet {}"
    by (rule invoke_selection_shape)
  then show ?case unfolding step run.simps by (rule Cons.IH)
qed

lemma run_selection_shape:
  "previously_selected_users (run conf roles_of pf rnd init cs) = SelectedDict Map.empty
   \<or> previously_selected_users (run conf roles_of pf rnd init cs) = SelectedSet {}"
  by (rule run_keeps_selection_shape) (simp add: init_def)

text \<open>So \<^verbatim>\<open>join\<close> never answers that the member was recently selected.\<close>

lemma run_never_recently_selected:
  "Reply RecentlySelected
     \<notin> set (fst (snd (join conf' roles_of' (run conf roles_of pf rnd init cs) g m)))"
proof -
  from run_selection_shape [of conf roles_of pf rnd cs]
  have "\<not> in_previously_selected (previously_selected_users (run conf roles_of pf rnd init cs)) m"
    by auto
  then show ?thesis
    by (simp add: join_def set_pool_fields Let_def split: sum.splits)
qed

text \<open>
  \<^verbatim>\<open>_picked_users\<close> is the empty dictionary of \<^verbatim>\<open>__init__\<close> or a list that
  \<^verbatim>\<open>pick\<close> assigned, so \<^verbatim>\<open>resend\<close> raises before its loop and sends nothing.
  Neither does \<^verbatim>\<open>pick\<close> send anything.
\<close>

lemma invoke_picked_shape:
  assumes "picked_users st = PickedDict Map.empty \<or> (\<exists>l. picked_users st = PickedList l)"
  shows "picked_users (fst (invoke conf roles_of pf rnd st g c)) = PickedDict Map.empty
       \<or> (\<exists>l. picked_users (fst (invoke conf roles_of pf rnd st g c)) = PickedList l)"
  using assms
  by (cases c) (auto simp add: cog_defs pool_pick_def Let_def split: sum.splits prod.splits option.splits)

lemma run_keeps_picked_shape:
  assumes "picked_users st = PickedDict Map.empty \<or> (\<exists>l. picked_users st = PickedList l)"
  shows "picked_users (run conf roles_of pf rnd st cs) = PickedDict Map.empty
       \<or> (\<exists>l. picked_users (run conf roles_of pf rnd st cs) = PickedList l)"
  using assms
proof (induction cs arbitrary: st)
  case Nil
  then show ?case by simp
next
  case (Cons step cs)
  obtain g c where step: "step = (g, c)" by (cases step)
  from Cons.prems
  have "picked_users (fst (invoke conf roles_of pf rnd st g c)) = PickedDict Map.empty
      \<or> (\<exists>l. picked_users (fst (invoke conf roles_of pf rnd st g c)) = PickedList l)"
    by (rule invoke_picked_shape)
  then show ?case unfolding step run.simps by (rule Cons.IH)
qed

lemma run_resend_sends_nothing:
  "fst (snd (resend pf' (run conf roles_of pf rnd init cs) g message)) = []
   \<and> snd (snd (resend pf' (run conf roles_of pf rnd init cs) g message)) \<noteq> None"
proof -
  have "picked_users (run conf roles_of pf rnd init cs) = PickedDict Map.empty
      \<or> (\<exists>l. picked_users (run conf roles_of pf rnd init cs) = PickedList l)"
    by (rule run_keeps_picked_shape) (simp add: init_def)
  then show ?thesis by (auto simp add: resend_def)
qed

lemma pick_sends_nothing: "attempted (fst (snd (pick conf pf rnd st g count message))) = []"
  by (simp add: pick_def announce_and_resend_def Let_def split: sum.splits prod.splits option.splits)

text \<open>The members of a pool stay unique.\<close>

lemma invoke_members_distinct:
  assumes "\<forall>g'. distinct (guild_members st g')"
  shows "distinct (guild_members (fst (invoke conf roles_of pf rnd st g c)) g')"
proof -
  from assms have here: "distinct (members (pool_for_guild st g))"
    and there: "distinct (members (pool_for_guild st g'))"
    by (simp_all add: guild_members_def)
  show ?thesis
  proof (cases "g' = g")
    case True
    with here show ?thesis
      by (cases c)
        (auto simp add: guild_members_def cog_defs pool_defs distinct_removeAll Let_def
          split: sum.splits prod.splits if_splits option.splits)
  next
    case False
    then have "pools (fst (invoke conf roles_of pf rnd st g c)) g' = pools st g'"
      by (rule invoke_other_pools)
    with there show ?thesis by (simp add: guild_members_def pool_for_guild_def)
  qed
qed

lemma run_keeps_members_distinct:
  assumes "\<forall>g'. distinct (guild_members st g')"
  shows "distinct (guild_members (run conf roles_of pf rnd st cs) g)"
  using assms
proof (induction cs arbitrary: st)
  case Nil
  then show ?case by simp
next
  case (Cons step cs)
  obtain g' c where step: "step = (g', c)" by (cases step)
  from Cons.prems
  have "\<forall>h. distinct (guild_members (fst (invoke conf roles_of pf rnd st g' c)) h)"
    by (simp add: invoke_members_distinct)
  then show ?case unfolding step run.simps by (rule Cons.IH)
qed

lemma run_members_distinct: "distinct (guild_members (run conf roles_of pf rnd init cs) g)"
  by (rule run_keeps_members_distinct)
    (simp add: guild_members_def pool_for_guild_def init_def new_pool_def)

section \<open>The claims\<close>

text \<open>
  C1, on the pool modelled from the spec. For every guild whose members are unique and
  every positive count, \<^verbatim>\<open>pick\<close> on an empty pool raises \<^verbatim>\<open>EmptyPool\<close>, and
  otherwise it stores the drawn sequence in \<^verbatim>\<open>_picked_users\<close>: the sequence has
  exactly, hence at most, \<open>min count size\<close> members, has no duplicates, and every
  element of it is a member of the guild's pool at the time of the draw.
\<close>

theorem pick_draws_from_pool:
  assumes "0 < count" and "distinct (guild_members st g)"
  shows "(guild_members st g = [] \<and> snd (snd (pick conf pf rnd st g count message)) = Some EmptyPool)
       \<or> (\<exists>picked. picked_users (fst (pick conf pf rnd st g count message)) = PickedList picked
             \<and> length picked = min (nat count) (length (guild_members st g))
             \<and> length picked \<le> min (nat count) (length (guild_members st g))
             \<and> distinct picked
             \<and> set picked \<subseteq> set (guild_members st g))"
proof (cases "guild_members st g = []")
  case True
  with assms(1) show ?thesis
    by (simp add: pick_def pool_pick_def guild_members_def Let_def)
next
  case False
  let ?ms = "guild_members st g"
  let ?picked = "sample rnd 0 ?ms (nat (min count (int (length ?ms))))"
  have draw: "pool_pick rnd (pool_for_guild st g) count
      = ((pool_for_guild st g)\<lparr>is_open := False\<rparr>, Inr ?picked)"
    using False assms(1) by (simp add: pool_pick_def guild_members_def pool_size_def Let_def)
  have stored: "picked_users (fst (pick conf pf rnd st g count message)) = PickedList ?picked"
    by (simp add: pick_def draw announce_and_resend_def resend_def Let_def
        split: sum.splits prod.splits option.splits)
  have "nat (min count (int (length ?ms))) = min (nat count) (length ?ms)"
    using assms(1) by simp
  then have len: "length ?picked = min (nat count) (length ?ms)"
    by (simp add: length_sample)
  have "distinct ?picked" using assms(2) by (rule distinct_sample)
  moreover have "set ?picked \<subseteq> set ?ms" by (rule set_sample)
  ultimately show ?thesis using stored len by auto
qed

text \<open>
  Guild 1 opens a pool, the members 7, 8 and 9 join, and the count is 2: the draw that
  always takes the first remaining member stores 7 and 8.
\<close>

theorem pick_draws_from_pool_witness:
  "run not_excluding no_roles always_delivered first_draw init
       [(1, Open ''Trivia''), (1, Join 7), (1, Join 8), (1, Join 9)] = trivia_pool [7, 8, 9]
   \<and> 0 < (2::int) \<and> distinct (guild_members (trivia_pool [7, 8, 9]) 1)
   \<and> picked_users (fst (pick not_excluding always_delivered first_draw (trivia_pool [7, 8, 9]) 1 2 ''gg''))
       = PickedList [7, 8]
   \<and> (\<exists>picked. picked_users (fst (pick not_excluding always_delivered first_draw (trivia_pool [7, 8, 9]) 1 2 ''gg''))
         = PickedList picked
       \<and> length picked \<le> min (nat 2) (length (guild_members (trivia_pool [7, 8, 9]) 1))
       \<and> distinct picked
       \<and> set picked \<subseteq> set (guild_members (trivia_pool [7, 8, 9]) 1))"
proof -
  have count: "0 < (2::int)" by simp
  have members: "guild_members (trivia_pool [7, 8, 9]) 1 = [7, 8, 9]"
    by (simp add: guild_members_def pool_for_guild_def trivia_pool_def)
  then have unique: "distinct (guild_members (trivia_pool [7, 8, 9]) 1)" by simp
  have drawn: "picked_users (fst (pick not_excluding always_delivered first_draw (trivia_pool [7, 8, 9]) 1 2 ''gg''))
       = PickedList [7, 8]"
    by (simp add: cog_defs pool_defs example_defs Let_def numeral_2_eq_2)
  from pick_draws_from_pool [OF count unique, of not_excluding always_delivered first_draw "''gg''"]
  have "\<exists>picked. picked_users (fst (pick not_excluding always_delivered first_draw (trivia_pool [7, 8, 9]) 1 2 ''gg''))
         = PickedList picked
       \<and> length picked \<le> min (nat 2) (length (guild_members (trivia_pool [7, 8, 9]) 1))
       \<and> distinct picked
       \<and> set picked \<subseteq> set (guild_members (trivia_pool [7, 8, 9]) 1)"
    using members by auto
  moreover have "run not_excluding no_roles always_delivered first_draw init
       [(1, Open ''Trivia''), (1, Join 7), (1, Join 8), (1, Join 9)] = trivia_pool [7, 8, 9]"
    by (simp add: cog_defs pool_defs example_defs Let_def)
  ultimately show ?thesis using count unique drawn by simp
qed

text \<open>
  C2, at a failing input. Guild 1 tracks exclusions, opens a pool titled "Trivia", and
  member 7 joins. \<^verbatim>\<open>pick\<close> with count 1 draws member 7 and then raises
  \<^verbatim>\<open>KeyError\<close>: \<^verbatim>\<open>_previously_selected_users\<close> has no entry for the guild. The
  field is still the empty dictionary, so when the pool is opened again member 7 joins
  again and is not told that it was recently selected.
\<close>

theorem pick_never_records_selected:
  "run excluding no_roles always_delivered first_draw init [(1, Open ''Trivia''), (1, Join 7)]
       = trivia_pool [7]
   \<and> exclude_selected (excluding 1)
   \<and> snd (pick excluding always_delivered first_draw (trivia_pool [7]) 1 1 ''gg'') = ([], Some KeyError)
   \<and> picked_users (fst (pick excluding always_delivered first_draw (trivia_pool [7]) 1 1 ''gg''))
       = PickedList [7]
   \<and> previously_selected_users (fst (pick excluding always_delivered first_draw (trivia_pool [7]) 1 1 ''gg''))
       = SelectedDict Map.empty
   \<and> snd (join excluding no_roles
         (fst (open_pool (fst (pick excluding always_delivered first_draw (trivia_pool [7]) 1 1 ''gg'')) 1 ''''))
         1 7)
       = ([Reply (Joined ''Trivia'')], None)"
  by (simp add: cog_defs pool_defs example_defs Let_def)

text \<open>
  C3, at a failing input. On the cog \<^verbatim>\<open>__init__\<close> makes, before any \<^verbatim>\<open>pick\<close>,
  \<^verbatim>\<open>resend\<close> for any guild sends nothing and does not complete: it raises
  \<^verbatim>\<open>KeyError\<close>, whatever the platform and the message.
\<close>

theorem resend_before_any_pick_raises:
  "resend pf init g message = (init, [], Some KeyError)"
  by (simp add: resend_def init_def)

text \<open>
  C4. For every member, \<^verbatim>\<open>join\<close> for a guild whose pool is closed answers that the
  pool is closed, raises nothing, and leaves the members of the guild's pool, and its
  state, as they were.
\<close>

theorem join_closed_pool:
  assumes "\<not> guild_is_open st g"
  shows "snd (join conf roles_of st g m) = ([Reply PoolClosed], None)
       \<and> guild_members (fst (join conf roles_of st g m)) g = guild_members st g
       \<and> \<not> guild_is_open (fst (join conf roles_of st g m)) g"
  using assms
  by (simp add: join_def guild_is_open_def guild_members_def pool_for_guild_set_pool Let_def)

text \<open>Member 7 asks to join guild 1 on a fresh cog, where no pool is open.\<close>

theorem join_closed_pool_witness:
  "\<not> guild_is_open init 1
   \<and> snd (join excluding no_roles init 1 7) = ([Reply PoolClosed], None)
   \<and> guild_members (fst (join excluding no_roles init 1 7)) 1 = guild_members init 1
   \<and> \<not> guild_is_open (fst (join excluding no_roles init 1 7)) 1"
proof -
  have closed: "\<not> guild_is_open init 1"
    by (simp add: guild_is_open_def pool_for_guild_def init_def new_pool_def)
  from join_closed_pool [OF closed, of excluding no_roles 7] closed show ?thesis by simp
qed

text \<open>
  C5 as stated fails when a delivery fails in a way the loop does not catch. Of the three
  recipients 10, 20 and 30 the message to the second times out: the exception leaves the
  loop, the third recipient is never tried, and the one failure is not reported.
\<close>

theorem dispatch_stops_at_timeout:
  "length [10, 20, 30::member] = 3
   \<and> length (failing second_times_out ''gg'' [10, 20, 30]) = 1
   \<and> dispatch second_times_out ''gg'' [10, 20, 30]
       = ([SendDM 10 ''gg'', SendDM 20 ''gg''], Some (Uncaught ''timeout''))
   \<and> attempted (fst (dispatch second_times_out ''gg'' [10, 20, 30])) = [10, 20]
   \<and> reported (fst (dispatch second_times_out ''gg'' [10, 20, 30])) = []"
  by (simp add: failing_def second_times_out_def deliver_def notify_def)

text \<open>
  C5, amended. For every list of N recipients in which each failing delivery raises
  \<^verbatim>\<open>Forbidden\<close> or another \<^verbatim>\<open>HTTPException\<close> and the reply that reports it
  returns, the loop of \<^verbatim>\<open>resend\<close> calls \<^verbatim>\<open>user.send\<close> once for each of the N
  recipients, in order, ends without an exception, and tells the requester of exactly the
  k recipients whose delivery failed, each with its reason: such a failure never keeps the
  loop from the remaining recipients. When \<^verbatim>\<open>_picked_users\<close> holds that list for
  the guild and the last reply returns, \<^verbatim>\<open>resend\<close> does the same and returns.
\<close>

theorem dispatch_isolates_failures:
  assumes "handled pf message users"
  shows "snd (dispatch pf message users) = None
       \<and> attempted (fst (dispatch pf message users)) = users
       \<and> reported (fst (dispatch pf message users)) = failing pf message users
       \<and> length (reported (fst (dispatch pf message users)))
           = length (filter (\<lambda>user. user_send pf user message \<noteq> Delivered) users)
       \<and> (recipients (picked_users st) g = Inr users \<and> ctx_reply pf AllDone = None
           \<longrightarrow> attempted (fst (snd (resend pf st g message))) = users
             \<and> reported (fst (snd (resend pf st g message))) = failing pf message users
             \<and> snd (snd (resend pf st g message)) = None)"
proof -
  obtain evs err where loop: "dispatch pf message users = (evs, err)"
    by (cases "dispatch pf message users")
  from dispatch_handled [OF assms] loop have err: "err = None"
    and tried: "attempted evs = users"
    and told: "reported evs = failing pf message users"
    by simp_all
  have "length (failing pf message users)
      = length (filter (\<lambda>user. user_send pf user message \<noteq> Delivered) users)"
    by (simp add: failing_def)
  with loop err tried told show ?thesis
    by (simp add: resend_def attempted_append reported_append)
qed

text \<open>
  Three recipients 10, 20 and 30, of which the second cannot be messaged: all three are
  tried, and only the second is reported.
\<close>

theorem dispatch_isolates_failures_witness:
  "handled second_fails ''gg'' [10, 20, 30]
   \<and> dispatch second_fails ''gg'' [10, 20, 30]
       = ([SendDM 10 ''gg'', SendDM 20 ''gg'', Reply (FailedForbidden 20), SendDM 30 ''gg''], None)
   \<and> attempted (fst (dispatch second_fails ''gg'' [10, 20, 30])) = [10, 20, 30]
   \<and> reported (fst (dispatch second_fails ''gg'' [10, 20, 30])) = [(20, Forbidden)]
   \<and> recipients (picked_users batch_of_three) 1 = Inr [10, 20, 30]
   \<and> ctx_reply second_fails AllDone = None
   \<and> attempted (fst (snd (resend second_fails batch_of_three 1 ''gg''))) = [10, 20, 30]
   \<and> reported (fst (snd (resend second_fails batch_of_three 1 ''gg''))) = [(20, Forbidden)]
   \<and> snd (snd (resend second_fails batch_of_three 1 ''gg'')) = None"
proof -
  have fine: "handled second_fails ''gg'' [10, 20, 30]"
    by (simp add: handled_def caught_def second_fails_def)
  have batch: "recipients (picked_users batch_of_three) 1 = Inr [10, 20, 30]"
    by (simp add: batch_of_three_def)
  have last: "ctx_reply second_fails AllDone = None"
    by (simp add: second_fails_def)
  have failed: "failing second_fails ''gg'' [10, 20, 30] = [(20, Forbidden)]"
    by (simp add: failing_def second_fails_def)
  have loop: "dispatch second_fails ''gg'' [10, 20, 30]
      = ([SendDM 10 ''gg'', SendDM 20 ''gg'', Reply (FailedForbidden 20), SendDM 30 ''gg''], None)"
    by (simp add: second_fails_def deliver_def notify_def)
  from dispatch_isolates_failures [OF fine, of batch_of_three 1] batch last failed
  have "attempted (fst (dispatch second_fails ''gg'' [10, 20, 30])) = [10, 20, 30]
      \<and> reported (fst (dispatch second_fails ''gg'' [10, 20, 30])) = [(20, Forbidden)]
      \<and> attempted (fst (snd (resend second_fails batch_of_three 1 ''gg''))) = [10, 20, 30]
      \<and> reported (fst (snd (resend second_fails batch_of_three 1 ''gg''))) = [(20, Forbidden)]
      \<and> snd (snd (resend second_fails batch_of_three 1 ''gg'')) = None"
    by simp
  with fine batch last loop show ?thesis by simp
qed

text \<open>
  C6, on the pool modelled from the spec. After \<^verbatim>\<open>pick\<close> for a guild, whether it
  returned or raised, the guild's pool is closed, whatever its state before.
\<close>

theorem pick_closes_pool:
  "\<not> guild_is_open (fst (pick conf pf rnd st g count message)) g"
  by (simp add: pick_def pool_pick_def announce_and_resend_def resend_def guild_is_open_def
      pool_for_guild_set_pool pool_for_guild_def set_pool_def Let_def split: sum.splits prod.splits option.splits)

text \<open>
  C7, at a failing input. Guild 1 opens a pool titled "Trivia", member 7 joins, and
  \<^verbatim>\<open>pick\<close> with count 1 draws member 7. \<^verbatim>\<open>_picked_users\<close> is now the list of
  the draw, not a dictionary. The call of \<^verbatim>\<open>resend\<close> at the end of \<^verbatim>\<open>pick\<close>
  raises \<^verbatim>\<open>TypeError\<close> before any delivery, and the command \<^verbatim>\<open>resend\<close> after
  it indexes the list by the guild identifier, raises \<^verbatim>\<open>IndexError\<close> and sends
  nothing to member 7.
\<close>

theorem resend_after_pick_sends_nothing:
  "run not_excluding no_roles always_delivered first_draw init [(1, Open ''Trivia''), (1, Join 7)]
       = trivia_pool [7]
   \<and> snd (pick not_excluding always_delivered first_draw (trivia_pool [7]) 1 1 ''gg'')
       = ([Announce 1 (Picked ''Trivia'' 1 [7])], Some TypeError)
   \<and> picked_users (fst (pick not_excluding always_delivered first_draw (trivia_pool [7]) 1 1 ''gg''))
       = PickedList [7]
   \<and> snd (resend always_delivered
         (fst (pick not_excluding always_delivered first_draw (trivia_pool [7]) 1 1 ''gg'')) 1 ''gg'')
       = ([], Some IndexError)"
  by (simp add: cog_defs pool_defs example_defs Let_def)

text \<open>
  C8, with \<^verbatim>\<open>MemberPool.open\<close> modelled from the spec. \<^verbatim>\<open>open\<close> raises
  nothing and leaves the guild's pool open; the members of the pool,
  \<^verbatim>\<open>_previously_selected_users\<close> and \<^verbatim>\<open>_picked_users\<close> are as before; the title
  is the one given when that is not empty, and the previous one when it is empty, which is
  also the default of the parameter.
\<close>

theorem open_pool_keeps_everything:
  "snd (snd (open_pool st g new_title)) = None
   \<and> guild_is_open (fst (open_pool st g new_title)) g
   \<and> guild_members (fst (open_pool st g new_title)) g = guild_members st g
   \<and> previously_selected_users (fst (open_pool st g new_title)) = previously_selected_users st
   \<and> picked_users (fst (open_pool st g new_title)) = picked_users st
   \<and> title (fst (open_pool st g new_title)) = (if new_title = '''' then title st else new_title)"
  by (simp add: open_pool_def guild_is_open_def guild_members_def pool_for_guild_def set_pool_def
      pool_open_def Let_def)

text \<open>
  C9 as stated fails on the round title. Guild 2 opens a pool titled "Chess"; then guild
  1 opens one titled "Trivia", and the title that the commands of guild 2 use is
  "Trivia".
\<close>

theorem open_retitles_other_guild:
  "(2::guild) \<noteq> 1
   \<and> guild_title (fst (open_pool init 2 ''Chess'')) 2 = ''Chess''
   \<and> guild_title (fst (invoke excluding no_roles always_delivered first_draw
         (fst (open_pool init 2 ''Chess'')) 1 (Open ''Trivia''))) 2 = ''Trivia''"
  by (simp add: guild_title_def open_pool_def set_pool_def init_def Let_def)

text \<open>
  C9, amended. For distinct guilds \<open>g\<close> and \<open>g'\<close>, every command invoked for \<open>g\<close>
  leaves the pool of \<open>g'\<close>, so its state and its members, unchanged. The round title is
  one value shared by all guilds: \<^verbatim>\<open>open\<close> with a title that is not empty replaces
  it for \<open>g'\<close> too, and no other command changes it.
\<close>

theorem other_guild_pool_untouched:
  assumes "g' \<noteq> g"
  shows "pools (fst (invoke conf roles_of pf rnd st g c)) g' = pools st g'
       \<and> guild_is_open (fst (invoke conf roles_of pf rnd st g c)) g' = guild_is_open st g'
       \<and> guild_members (fst (invoke conf roles_of pf rnd st g c)) g' = guild_members st g'
       \<and> guild_title (fst (invoke conf roles_of pf rnd st g c)) g'
           = (case c of Open new_title \<Rightarrow> if new_title = '''' then guild_title st g' else new_title
              | _ \<Rightarrow> guild_title st g')"
proof -
  have "pools (fst (invoke conf roles_of pf rnd st g c)) g' = pools st g'"
    using assms by (rule invoke_other_pools)
  then show ?thesis
    by (simp add: invoke_title guild_is_open_def guild_members_def guild_title_def
        pool_for_guild_def split: command.splits)
qed

text \<open>
  Guild 1 picks one member from its pool; guild 2 has no pool yet and sees the same
  closed, empty pool and the same title afterwards.
\<close>

theorem other_guild_pool_untouched_witness:
  "(2::guild) \<noteq> 1
   \<and> pools (fst (invoke not_excluding no_roles always_delivered first_draw (trivia_pool [7]) 1 (Pick 1 ''gg''))) 2
       = pools (trivia_pool [7]) 2
   \<and> guild_is_open (fst (invoke not_excluding no_roles always_delivered first_draw (trivia_pool [7]) 1 (Pick 1 ''gg''))) 2
       = guild_is_open (trivia_pool [7]) 2
   \<and> guild_members (fst (invoke not_excluding no_roles always_delivered first_draw (trivia_pool [7]) 1 (Pick 1 ''gg''))) 2
       = guild_members (trivia_pool [7]) 2
   \<and> guild_title (fst (invoke not_excluding no_roles always_delivered first_draw (trivia_pool [7]) 1 (Pick 1 ''gg''))) 2
       = guild_title (trivia_pool [7]) 2"
proof -
  have other: "(2::guild) \<noteq> 1" by simp
  from other_guild_pool_untouched [OF other, of not_excluding no_roles always_delivered first_draw
      "trivia_pool [7]" "Pick 1 ''gg''"] other
  show ?thesis by simp
qed

text \<open>
  C10. In \<^verbatim>\<open>join\<close> on an open pool, a member found in
  \<^verbatim>\<open>_previously_selected_users\<close> is told that it was recently selected and nothing
  else, whatever its roles and whatever the configuration: the test comes before the
  role check, the pool keeps its members, and the answer of \<^verbatim>\<open>join\<close> does not
  depend on whether the configuration tracks exclusions.
\<close>

theorem join_checks_selection_first:
  "(guild_is_open st g \<and> in_previously_selected (previously_selected_users st) m
      \<longrightarrow> snd (join conf roles_of st g m) = ([Reply RecentlySelected], None)
        \<and> guild_members (fst (join conf roles_of st g m)) g = guild_members st g)
   \<and> join (\<lambda>g. (conf g)\<lparr>exclude_selected := b\<rparr>) roles_of st g m = join conf roles_of st g m"
  by (simp add: join_def guild_is_open_def guild_members_def pool_for_guild_set_pool
      set_pool_fields Let_def)

text \<open>
  Member 7 holds no role, guild 1 asks for role 3 and does not track exclusions, and
  member 7 is in the set: the answer is "recently selected", not the role error.
\<close>

theorem join_checks_selection_first_witness:
  "guild_is_open selected_before 1
   \<and> in_previously_selected (previously_selected_users selected_before) 7
   \<and> \<not> exclude_selected (picky 1)
   \<and> \<not> role_eligible (player_roles (picky 1)) (no_roles 7)
   \<and> snd (join picky no_roles selected_before 1 7) = ([Reply RecentlySelected], None)
   \<and> guild_members (fst (join picky no_roles selected_before 1 7)) 1 = guild_members selected_before 1"
proof -
  have opened: "guild_is_open selected_before 1"
    by (simp add: guild_is_open_def pool_for_guild_def selected_before_def)
  have selected: "in_previously_selected (previously_selected_users selected_before) 7"
    by (simp add: selected_before_def)
  have config: "\<not> exclude_selected (picky 1) \<and> \<not> role_eligible (player_roles (picky 1)) (no_roles 7)"
    by (simp add: picky_def role_eligible_def no_roles_def)
  from join_checks_selection_first [of selected_before 1 7 picky no_roles] opened selected
  have "snd (join picky no_roles selected_before 1 7) = ([Reply RecentlySelected], None)
      \<and> guild_members (fst (join picky no_roles selected_before 1 7)) 1 = guild_members selected_before 1"
    by blast
  with opened selected config show ?thesis by simp
qed

end
